theory Spec2Isabelle
  imports Complex_Main "HOL-Library.Monad_Syntax"
begin

section \<open>Python values\<close>

text \<open>
  A Python \<open>str\<close> is a sequence of Unicode code points, so a string is modelled as the
  list of its code points and \<open>len\<close> is \<open>length\<close>. String literals of the source are
  written \<open>str_of ''...''\<close>.
\<close>

type_synonym str = "nat list"

definition str_of :: "string \<Rightarrow> str" where
  "str_of s = map of_char s"

text \<open>
  \<open>str.isspace\<close> for one character: the code points CPython treats as whitespace
  (TAB..CR, FS..US, SPACE, NEL, NBSP, and the Unicode space separators).
\<close>

definition isspace :: "nat \<Rightarrow> bool" where
  "isspace c \<longleftrightarrow>
     (0x09 \<le> c \<and> c \<le> 0x0D) \<or> (0x1C \<le> c \<and> c \<le> 0x20) \<or> c = 0x85 \<or> c = 0xA0 \<or>
     c = 0x1680 \<or> (0x2000 \<le> c \<and> c \<le> 0x200A) \<or> c = 0x2028 \<or> c = 0x2029 \<or>
     c = 0x202F \<or> c = 0x205F \<or> c = 0x3000"

text \<open>\<open>v.strip()\<close>: leading and trailing whitespace removed.\<close>

definition lstrip :: "str \<Rightarrow> str" where
  "lstrip v = dropWhile isspace v"

definition rstrip :: "str \<Rightarrow> str" where
  "rstrip v = rev (dropWhile isspace (rev v))"

definition strip :: "str \<Rightarrow> str" where
  "strip v = rstrip (lstrip v)"


section \<open>Schema\<close>

datatype NodeType = CLAIM | EVIDENCE | ASSUMPTION

datatype EdgeType = SUPPORTS | CONTRADICTS | DEPENDS_ON | IMPLIES

text \<open>The string value of each enumeration member.\<close>

fun NodeType_value :: "NodeType \<Rightarrow> str" where
  "NodeType_value CLAIM = str_of ''Claim''"
| "NodeType_value EVIDENCE = str_of ''Evidence''"
| "NodeType_value ASSUMPTION = str_of ''Assumption''"

fun EdgeType_value :: "EdgeType \<Rightarrow> str" where
  "EdgeType_value SUPPORTS = str_of ''supports''"
| "EdgeType_value CONTRADICTS = str_of ''contradicts''"
| "EdgeType_value DEPENDS_ON = str_of ''depends-on''"
| "EdgeType_value IMPLIES = str_of ''implies''"

text \<open>
  The fields of each model class, with the class name as prefix (\<open>Node.id\<close> is
  \<open>Node_id\<close>). A \<open>float\<close> is modelled by the real number it denotes: the only
  operations on it are the comparisons with the bounds 0.0 and 1.0, which are exact;
  NaN and the infinities are outside the model. The field values are taken at their
  annotated types.
\<close>

record Node =
  Node_id :: str
  Node_type :: NodeType
  Node_text :: str
  Node_source :: "str option"
  Node_confidence :: "real option"

record Edge =
  Edge_source :: str
  Edge_target :: str
  Edge_type :: EdgeType

record ReasoningGraph =
  nodes :: "Node list"
  edges :: "Edge list"

record Output =
  Output_text :: str
  graph :: ReasoningGraph


section \<open>Validation\<close>

text \<open>
  One constructor for each way validation fails: the three \<open>ValueError\<close>s raised by
  \<open>validate_graph\<close> (the two edge errors carry the id that the message quotes), the
  \<open>ValueError\<close> of \<open>id_not_empty\<close>, the violations of the declared field
  constraints \<open>min_length=1\<close>, \<open>ge=0.0\<close> and \<open>le=1.0\<close>, and the error
  \<open>string_unicode\<close> of a constrained string that is not valid Unicode.
\<close>

datatype error =
    IdMustBeNonEmpty
  | StringUnicode
  | TextTooShort
  | ConfidenceNotGe
  | ConfidenceNotLe
  | DuplicateNodeIds
  | EdgeSourceNotFound str
  | EdgeTargetNotFound str

subsection \<open>Node\<close>

definition id_not_empty :: "str \<Rightarrow> error + str" where
  "id_not_empty v =
     (let v = strip v in
      if v = [] then Inl IdMustBeNonEmpty else Inr v)"

text \<open>
  \<open>text: str = Field(..., min_length=1)\<close>. To count its characters, the validator of
  a string with a length constraint first reads the string as UTF-8, which fails with
  \<open>string_unicode\<close> when the string holds a surrogate code point (\<open>U+D800\<close> to
  \<open>U+DFFF\<close>); the length is compared only then. A \<open>str\<close> field without a constraint
  (\<open>id\<close>, \<open>source\<close>, the fields of \<open>Edge\<close>, the text of \<open>Output\<close>) is taken as it
  is given.
\<close>

definition is_surrogate :: "nat \<Rightarrow> bool" where
  "is_surrogate c \<longleftrightarrow> 0xD800 \<le> c \<and> c \<le> 0xDFFF"

definition text_constraint :: "str \<Rightarrow> error + str" where
  "text_constraint v =
     (if \<exists>c\<in>set v. is_surrogate c then Inl StringUnicode
      else if length v < 1 then Inl TextTooShort
      else Inr v)"

text \<open>\<open>confidence: Optional[float] = Field(default=None, ge=0.0, le=1.0)\<close>\<close>

definition confidence_constraint :: "real option \<Rightarrow> error + real option" where
  "confidence_constraint v =
     (case v of
        None \<Rightarrow> Inr None
      | Some c \<Rightarrow>
          if \<not> (c \<ge> 0) then Inl ConfidenceNotGe
          else if \<not> (c \<le> 1) then Inl ConfidenceNotLe
          else Inr (Some c))"

text \<open>
  Validation of a model checks every field and reports the errors of all of them
  together; the object is built only when no field failed.
\<close>

fun errors_of :: "error + 'a \<Rightarrow> error list" where
  "errors_of (Inl e) = [e]"
| "errors_of (Inr _) = []"

definition Node_validate :: "Node \<Rightarrow> error list + Node" where
  "Node_validate n =
     (case (id_not_empty (Node_id n), text_constraint (Node_text n),
            confidence_constraint (Node_confidence n)) of
        (Inr i, Inr t, Inr c) \<Rightarrow>
          Inr \<lparr>Node_id = i, Node_type = Node_type n, Node_text = t,
               Node_source = Node_source n, Node_confidence = c\<rparr>
      | (ri, rt, rc) \<Rightarrow> Inl (errors_of ri @ errors_of rt @ errors_of rc))"

subsection \<open>ReasoningGraph\<close>

text \<open>
  The loop of \<open>validate_graph\<close> over the edges: it raises at the first edge whose
  source, or else whose target, is not in \<open>id_set\<close>, and falls through (\<open>None\<close>)
  when there is none.
\<close>

fun check_edges :: "str set \<Rightarrow> Edge list \<Rightarrow> error option" where
  "check_edges id_set [] = None"
| "check_edges id_set (e # es) =
     (if Edge_source e \<notin> id_set then Some (EdgeSourceNotFound (Edge_source e))
      else if Edge_target e \<notin> id_set then Some (EdgeTargetNotFound (Edge_target e))
      else check_edges id_set es)"

text \<open>
  The model validator, run on a graph whose fields have been validated. The block of
  semantic constraints after the loop is commented out in the source, so the function
  returns \<open>self\<close> right after the loop.
\<close>

definition validate_graph :: "ReasoningGraph \<Rightarrow> error + ReasoningGraph" where
  "validate_graph self =
     (let ids = map Node_id (nodes self) in
      if length ids \<noteq> card (set ids) then Inl DuplicateNodeIds
      else
        let id_set = set ids in
        case check_edges id_set (edges self) of
          Some err \<Rightarrow> Inl err
        | None \<Rightarrow> Inr self)"

text \<open>
  The commented-out block, as a predicate on a graph that passed the two checks above:
  \<open>True\<close> when the block would not raise. It is not part of \<open>validate_graph\<close>; it is
  here to name the graphs that the block would have rejected.
\<close>

definition node_type :: "ReasoningGraph \<Rightarrow> str \<rightharpoonup> NodeType" where
  "node_type self = map_of (rev (map (\<lambda>n. (Node_id n, Node_type n)) (nodes self)))"

definition semantic_constraints :: "ReasoningGraph \<Rightarrow> bool" where
  "semantic_constraints self =
     list_all (\<lambda>e.
        let s = Edge_source e; t = Edge_target e; et = Edge_type e in
        (if et = SUPPORTS \<or> et = CONTRADICTS
         then node_type self s = Some EVIDENCE \<and> node_type self t = Some CLAIM else True) \<and>
        (if et = DEPENDS_ON
         then node_type self s = Some CLAIM \<and> node_type self t = Some ASSUMPTION else True) \<and>
        (if et = IMPLIES
         then node_type self s = Some CLAIM \<and> node_type self t = Some CLAIM else True))
       (edges self)"

text \<open>
  Validation of a list field: every item is validated and the errors of all items are
  reported together.
\<close>

fun errors_list :: "error list + 'a \<Rightarrow> error list" where
  "errors_list (Inl es) = es"
| "errors_list (Inr _) = []"

fun validate_items :: "('a \<Rightarrow> error list + 'b) \<Rightarrow> 'a list \<Rightarrow> error list + 'b list" where
  "validate_items f [] = Inr []"
| "validate_items f (x # xs) =
     (case (f x, validate_items f xs) of
        (Inr y, Inr ys) \<Rightarrow> Inr (y # ys)
      | (rx, rxs) \<Rightarrow> Inl (errors_list rx @ errors_list rxs))"

text \<open>
  Construction of a \<open>ReasoningGraph\<close> from candidate data: the nodes are validated (an
  \<open>Edge\<close> has no constraint of its own), and \<open>validate_graph\<close>, a validator of mode
  \<open>after\<close>, runs only when the fields are valid.
\<close>

definition ReasoningGraph_validate :: "ReasoningGraph \<Rightarrow> error list + ReasoningGraph" where
  "ReasoningGraph_validate g =
     (case validate_items Node_validate (nodes g) of
        Inl es \<Rightarrow> Inl es
      | Inr ns \<Rightarrow>
          (case validate_graph \<lparr>nodes = ns, edges = edges g\<rparr> of
             Inl e \<Rightarrow> Inl [e]
           | Inr g' \<Rightarrow> Inr g'))"

subsection \<open>Output\<close>

text \<open>
  \<open>text: str = Field(..., description=...)\<close> declares no constraint, so only the graph
  can make the construction of an \<open>Output\<close> fail.
\<close>

definition Output_validate :: "Output \<Rightarrow> error list + Output" where
  "Output_validate out =
     (case ReasoningGraph_validate (graph out) of
        Inl es \<Rightarrow> Inl es
      | Inr g \<Rightarrow> Inr \<lparr>Output_text = Output_text out, graph = g\<rparr>)"


section \<open>Export\<close>

text \<open>
  The value of \<open>out.model_dump(mode="json")\<close> and the exported document are JSON
  values: a \<open>dict\<close> is the list of its items in insertion order, \<open>None\<close> is \<open>JNull\<close>.
\<close>

datatype json =
    JNull
  | JString str
  | JNumber real
  | JArray "json list"
  | JObject "(str \<times> json) list"

subsection \<open>\<open>model_dump\<close>\<close>

text \<open>
  Every field is dumped under its name, the unset optional ones as \<open>None\<close>, and an
  enumeration member as its string value.
\<close>

definition dump_optional :: "('a \<Rightarrow> json) \<Rightarrow> 'a option \<Rightarrow> json" where
  "dump_optional f v = (case v of None \<Rightarrow> JNull | Some x \<Rightarrow> f x)"

definition Node_model_dump :: "Node \<Rightarrow> json" where
  "Node_model_dump n =
     JObject [(str_of ''id'', JString (Node_id n)),
              (str_of ''type'', JString (NodeType_value (Node_type n))),
              (str_of ''text'', JString (Node_text n)),
              (str_of ''source'', dump_optional JString (Node_source n)),
              (str_of ''confidence'', dump_optional JNumber (Node_confidence n))]"

definition Edge_model_dump :: "Edge \<Rightarrow> json" where
  "Edge_model_dump e =
     JObject [(str_of ''source'', JString (Edge_source e)),
              (str_of ''target'', JString (Edge_target e)),
              (str_of ''type'', JString (EdgeType_value (Edge_type e)))]"

definition ReasoningGraph_model_dump :: "ReasoningGraph \<Rightarrow> json" where
  "ReasoningGraph_model_dump g =
     JObject [(str_of ''nodes'', JArray (map Node_model_dump (nodes g))),
              (str_of ''edges'', JArray (map Edge_model_dump (edges g)))]"

definition model_dump :: "Output \<Rightarrow> json" where
  "model_dump out =
     JObject [(str_of ''text'', JString (Output_text out)),
              (str_of ''graph'', ReasoningGraph_model_dump (graph out))]"

subsection \<open>The \<open>cyto\<close> document\<close>

text \<open>
  The operations the export applies to the dumped data. \<open>None\<close> stands for every case
  in which the Python does not produce a value: a missing key (\<open>KeyError\<close>), a
  subscript or \<open>.get\<close> on a value that is not a \<open>dict\<close>, an iteration over \<open>None\<close> or
  a number. Iterating over a \<open>dict\<close> yields its keys and over a \<open>str\<close> its
  characters. An f-string field is formatted by \<open>str()\<close>: the identity on a \<open>str\<close>,
  \<open>None\<close> for \<open>None\<close>; the formatting of numbers, lists and dicts is not modelled
  and is \<open>None\<close> here too.
\<close>

fun subscript :: "json \<Rightarrow> str \<Rightarrow> json option" where
  "subscript (JObject kvs) k = map_of kvs k"
| "subscript _ k = None"

fun get :: "json \<Rightarrow> str \<Rightarrow> json option" where
  "get (JObject kvs) k = (case map_of kvs k of None \<Rightarrow> Some JNull | Some v \<Rightarrow> Some v)"
| "get _ k = None"

fun iter :: "json \<Rightarrow> json list option" where
  "iter (JArray xs) = Some xs"
| "iter (JObject kvs) = Some (map (\<lambda>kv. JString (fst kv)) kvs)"
| "iter (JString s) = Some (map (\<lambda>c. JString [c]) s)"
| "iter _ = None"

fun format_str :: "json \<Rightarrow> str option" where
  "format_str (JString s) = Some s"
| "format_str JNull = Some (str_of ''None'')"
| "format_str _ = None"

text \<open>A list comprehension whose element expression may raise.\<close>

fun comprehension :: "('a \<Rightarrow> 'b option) \<Rightarrow> 'a list \<Rightarrow> 'b list option" where
  "comprehension f [] = Some []"
| "comprehension f (x # xs) =
     do { y \<leftarrow> f x; ys \<leftarrow> comprehension f xs; Some (y # ys) }"

text \<open>The element built for one node \<open>n\<close> of \<open>data["graph"]["nodes"]\<close>.\<close>

definition cyto_node :: "json \<Rightarrow> json option" where
  "cyto_node n =
     do {
       i \<leftarrow> subscript n (str_of ''id'');
       label \<leftarrow> subscript n (str_of ''text'');
       ty \<leftarrow> subscript n (str_of ''type'');
       src \<leftarrow> get n (str_of ''source'');
       conf \<leftarrow> get n (str_of ''confidence'');
       Some (JObject [(str_of ''data'',
               JObject [(str_of ''id'', i),
                        (str_of ''label'', label),
                        (str_of ''type'', ty),
                        (str_of ''source'', src),
                        (str_of ''confidence'', conf)])])
     }"

text \<open>
  The element built for one edge \<open>e\<close> of \<open>data["graph"]["edges"]\<close>; its id is the
  f-string \<open>f'{e["type"]}:{e["source"]}->{e["target"]}'\<close>.
\<close>

definition cyto_edge :: "json \<Rightarrow> json option" where
  "cyto_edge e =
     do {
       ty \<leftarrow> subscript e (str_of ''type'');
       ty_s \<leftarrow> format_str ty;
       src \<leftarrow> subscript e (str_of ''source'');
       src_s \<leftarrow> format_str src;
       tgt \<leftarrow> subscript e (str_of ''target'');
       tgt_s \<leftarrow> format_str tgt;
       Some (JObject [(str_of ''data'',
               JObject [(str_of ''id'',
                           JString (ty_s @ str_of '':'' @ src_s @ str_of ''->'' @ tgt_s)),
                        (str_of ''source'', src),
                        (str_of ''target'', tgt),
                        (str_of ''type'', ty)])])
     }"

definition cyto :: "json \<Rightarrow> json option" where
  "cyto data =
     do {
       text_v \<leftarrow> subscript data (str_of ''text'');
       g \<leftarrow> subscript data (str_of ''graph'');
       ns \<leftarrow> subscript g (str_of ''nodes'');
       ns_l \<leftarrow> iter ns;
       node_elems \<leftarrow> comprehension cyto_node ns_l;
       es \<leftarrow> subscript g (str_of ''edges'');
       es_l \<leftarrow> iter es;
       edge_elems \<leftarrow> comprehension cyto_edge es_l;
       Some (JObject [(str_of ''text'', text_v),
                      (str_of ''elements'',
                         JObject [(str_of ''nodes'', JArray node_elems),
                                  (str_of ''edges'', JArray edge_elems)])])
     }"

text \<open>The export of an \<open>Output\<close>, as the main program computes it.\<close>

definition export :: "Output \<Rightarrow> json option" where
  "export out = cyto (model_dump out)"


section \<open>Properties of \<open>strip\<close>\<close>

lemma lstrip_Nil_iff: "lstrip v = [] \<longleftrightarrow> (\<forall>c\<in>set v. isspace c)"
  by (simp add: lstrip_def)

lemma rstrip_Nil_iff: "rstrip v = [] \<longleftrightarrow> (\<forall>c\<in>set v. isspace c)"
  by (simp add: rstrip_def)

lemma hd_lstrip: "lstrip v \<noteq> [] \<Longrightarrow> \<not> isspace (hd (lstrip v))"
  unfolding lstrip_def by (rule hd_dropWhile)

lemma last_rstrip: "rstrip v \<noteq> [] \<Longrightarrow> \<not> isspace (last (rstrip v))"
  unfolding rstrip_def by (simp add: last_rev hd_dropWhile)

lemma rstrip_decomp: "v = rstrip v @ rev (takeWhile isspace (rev v))"
  unfolding rstrip_def
  by (metis rev_append rev_rev_ident takeWhile_dropWhile_id)

lemma lstrip_id: "v \<noteq> [] \<Longrightarrow> \<not> isspace (hd v) \<Longrightarrow> lstrip v = v"
  by (cases v) (simp_all add: lstrip_def)

lemma rstrip_id: "v \<noteq> [] \<Longrightarrow> \<not> isspace (last v) \<Longrightarrow> rstrip v = v"
proof -
  assume a: "v \<noteq> []" "\<not> isspace (last v)"
  then have "rev v \<noteq> []" "\<not> isspace (hd (rev v))" by (simp_all add: hd_rev)
  then have "dropWhile isspace (rev v) = rev v" by (cases "rev v") simp_all
  then show ?thesis by (simp add: rstrip_def)
qed

lemma hd_rstrip: "rstrip v \<noteq> [] \<Longrightarrow> hd (rstrip v) = hd v"
proof -
  assume a: "rstrip v \<noteq> []"
  have "v = rstrip v @ rev (takeWhile isspace (rev v))" by (rule rstrip_decomp)
  then have "hd v = hd (rstrip v @ rev (takeWhile isspace (rev v)))" by simp
  with a show ?thesis by simp
qed

lemma strip_Nil_iff: "strip v = [] \<longleftrightarrow> (\<forall>c\<in>set v. isspace c)"
proof
  assume "strip v = []"
  then have all: "\<forall>c\<in>set (lstrip v). isspace c" by (simp add: strip_def rstrip_Nil_iff)
  have "lstrip v = []"
  proof (rule ccontr)
    assume ne: "lstrip v \<noteq> []"
    then have "hd (lstrip v) \<in> set (lstrip v)" by simp
    with all have "isspace (hd (lstrip v))" by blast
    with hd_lstrip[OF ne] show False by simp
  qed
  then show "\<forall>c\<in>set v. isspace c" by (simp add: lstrip_Nil_iff)
next
  assume "\<forall>c\<in>set v. isspace c"
  then have "lstrip v = []" by (simp add: lstrip_Nil_iff)
  then show "strip v = []" by (simp add: strip_def rstrip_def)
qed

lemma strip_decomp:
  "v = takeWhile isspace v @ strip v @ rev (takeWhile isspace (rev (lstrip v)))"
proof -
  have "lstrip v = strip v @ rev (takeWhile isspace (rev (lstrip v)))"
    unfolding strip_def by (rule rstrip_decomp)
  then have "takeWhile isspace v @ lstrip v =
      takeWhile isspace v @ strip v @ rev (takeWhile isspace (rev (lstrip v)))" by simp
  then show ?thesis by (simp add: lstrip_def)
qed

lemma hd_strip: "strip v \<noteq> [] \<Longrightarrow> \<not> isspace (hd (strip v))"
proof -
  assume ne: "strip v \<noteq> []"
  then have ne': "lstrip v \<noteq> []" by (auto simp: strip_def rstrip_def)
  from ne have "hd (strip v) = hd (lstrip v)" unfolding strip_def by (rule hd_rstrip)
  with hd_lstrip[OF ne'] show ?thesis by simp
qed

lemma last_strip: "strip v \<noteq> [] \<Longrightarrow> \<not> isspace (last (strip v))"
  unfolding strip_def by (rule last_rstrip)

lemma strip_idem: "strip (strip v) = strip v"
proof (cases "strip v = []")
  case True
  have "strip [] = []" by (simp add: strip_def lstrip_def rstrip_def)
  with True show ?thesis by simp
next
  case False
  then have "lstrip (strip v) = strip v" by (simp add: lstrip_id hd_strip)
  moreover from False have "rstrip (strip v) = strip v" by (simp add: rstrip_id last_strip)
  ultimately show ?thesis by (simp add: strip_def)
qed

text \<open>Unfolding these evaluates \<open>strip\<close> on a literal.\<close>

lemmas strip_defs = strip_def lstrip_def rstrip_def isspace_def str_of_def


section \<open>Properties of \<open>validate_graph\<close>\<close>

lemma length_card_distinct: "length xs \<noteq> card (set xs) \<longleftrightarrow> \<not> distinct xs"
  using distinct_card card_distinct by metis

lemma check_edges_None_iff:
  "check_edges S es = None \<longleftrightarrow> (\<forall>e\<in>set es. Edge_source e \<in> S \<and> Edge_target e \<in> S)"
  by (induction es) auto

lemma check_edges_first:
  assumes "\<forall>x\<in>set pre. Edge_source x \<in> S \<and> Edge_target x \<in> S"
    and "Edge_source e \<notin> S \<or> Edge_target e \<notin> S"
  shows "check_edges S (pre @ e # post) =
     Some (if Edge_source e \<notin> S then EdgeSourceNotFound (Edge_source e)
           else EdgeTargetNotFound (Edge_target e))"
  using assms by (induction pre) auto

lemma check_edges_Some:
  "check_edges S es = Some err \<Longrightarrow>
     \<exists>e\<in>set es. (err = EdgeSourceNotFound (Edge_source e) \<and> Edge_source e \<notin> S) \<or>
                 (err = EdgeTargetNotFound (Edge_target e) \<and> Edge_target e \<notin> S)"
  by (induction es) (auto split: if_splits)

lemma validate_graph_dup:
  "\<not> distinct (map Node_id (nodes g)) \<Longrightarrow> validate_graph g = Inl DuplicateNodeIds"
  by (simp add: validate_graph_def Let_def length_card_distinct)

lemma validate_graph_distinct:
  "distinct (map Node_id (nodes g)) \<Longrightarrow>
   validate_graph g = (case check_edges (set (map Node_id (nodes g))) (edges g) of
          Some err \<Rightarrow> Inl err | None \<Rightarrow> Inr g)"
  using length_card_distinct[of "map Node_id (nodes g)"]
  by (simp add: validate_graph_def Let_def)

lemma validate_graph_Inr: "validate_graph g = Inr g' \<Longrightarrow> g' = g"
  by (auto simp: validate_graph_def Let_def split: if_splits option.splits)

lemma two_equal_not_distinct:
  "i < length xs \<Longrightarrow> j < length xs \<Longrightarrow> i \<noteq> j \<Longrightarrow> xs ! i = xs ! j \<Longrightarrow> \<not> distinct xs"
  by (auto simp: distinct_conv_nth)


section \<open>Properties of the validation of nodes\<close>

lemmas Node_validate_defs = Node_validate_def id_not_empty_def text_constraint_def
  is_surrogate_def confidence_constraint_def

lemma id_not_empty_Inl: "strip v = [] \<Longrightarrow> id_not_empty v = Inl IdMustBeNonEmpty"
  by (simp add: id_not_empty_def)

lemma id_not_empty_Inr: "strip v \<noteq> [] \<Longrightarrow> id_not_empty v = Inr (strip v)"
  by (simp add: id_not_empty_def)

lemma text_constraint_Inl: "v = [] \<Longrightarrow> text_constraint v = Inl TextTooShort"
  by (simp add: text_constraint_def)

lemma text_constraint_surrogate:
  "\<exists>c\<in>set v. is_surrogate c \<Longrightarrow> text_constraint v = Inl StringUnicode"
  by (simp add: text_constraint_def)

lemma text_constraint_Inr:
  "v \<noteq> [] \<Longrightarrow> \<forall>c\<in>set v. \<not> is_surrogate c \<Longrightarrow> text_constraint v = Inr v"
  by (cases v) (simp_all add: text_constraint_def)

lemma text_constraint_Inr_iff:
  "text_constraint v = Inr t \<longleftrightarrow> t = v \<and> v \<noteq> [] \<and> (\<forall>c\<in>set v. \<not> is_surrogate c)"
  by (cases v) (auto simp: text_constraint_def)

lemma confidence_constraint_None: "confidence_constraint None = Inr None"
  by (simp add: confidence_constraint_def)

lemma confidence_constraint_in: 
  "0 \<le> c \<Longrightarrow> c \<le> 1 \<Longrightarrow> confidence_constraint (Some c) = Inr (Some c)"
  by (simp add: confidence_constraint_def)

lemma confidence_constraint_below: 
  "c < 0 \<Longrightarrow> confidence_constraint (Some c) = Inl ConfidenceNotGe"
  by (simp add: confidence_constraint_def)

lemma confidence_constraint_above: 
  "1 < c \<Longrightarrow> confidence_constraint (Some c) = Inl ConfidenceNotLe"
  by (simp add: confidence_constraint_def)

lemma Node_validate_errors:
  "Node_validate n = Inl es \<longleftrightarrow>
     es = errors_of (id_not_empty (Node_id n)) @ errors_of (text_constraint (Node_text n)) @
          errors_of (confidence_constraint (Node_confidence n)) \<and> es \<noteq> []"
  by (auto simp: Node_validate_def split: sum.splits)

lemma Node_validate_Inr:
  "Node_validate n = Inr n' \<longleftrightarrow>
     id_not_empty (Node_id n) = Inr (Node_id n') \<and>
     text_constraint (Node_text n) = Inr (Node_text n') \<and>
     confidence_constraint (Node_confidence n) = Inr (Node_confidence n') \<and>
     Node_type n' = Node_type n \<and> Node_source n' = Node_source n"
  by (cases n') (auto simp: Node_validate_def split: sum.splits)

lemma Node_validate_ok:
  assumes "strip (Node_id n) \<noteq> []" and "Node_text n \<noteq> []"
    and "\<forall>c\<in>set (Node_text n). \<not> is_surrogate c"
    and "case Node_confidence n of None \<Rightarrow> True | Some c \<Rightarrow> 0 \<le> c \<and> c \<le> 1"
  shows "Node_validate n = Inr (n\<lparr>Node_id := strip (Node_id n)\<rparr>)"
  using assms
  by (auto simp: Node_validate_Inr id_not_empty_Inr text_constraint_Inr
      confidence_constraint_None confidence_constraint_in split: option.splits)

lemma Node_validate_Inr_id:
  "Node_validate n = Inr n' \<Longrightarrow> n' = n\<lparr>Node_id := strip (Node_id n)\<rparr>"
  by (cases n; cases n')
     (auto simp: Node_validate_Inr id_not_empty_def text_constraint_Inr_iff
        confidence_constraint_def Let_def split: if_splits option.splits)

lemma Node_validate_Inr_conditions:
  "Node_validate n = Inr n' \<Longrightarrow>
     strip (Node_id n) \<noteq> [] \<and> Node_text n \<noteq> [] \<and>
     (\<forall>c\<in>set (Node_text n). \<not> is_surrogate c) \<and>
     (case Node_confidence n of None \<Rightarrow> True | Some c \<Rightarrow> 0 \<le> c \<and> c \<le> 1)"
  by (auto simp: Node_validate_Inr id_not_empty_def text_constraint_Inr_iff
      confidence_constraint_def Let_def split: if_splits option.splits)

lemma Node_validate_id_error:
  "strip (Node_id n) = [] \<Longrightarrow> \<exists>es. Node_validate n = Inl es \<and> IdMustBeNonEmpty \<in> set es"
  by (simp add: Node_validate_errors id_not_empty_Inl)

lemma Node_validate_text_error:
  "Node_text n = [] \<Longrightarrow> \<exists>es. Node_validate n = Inl es \<and> TextTooShort \<in> set es"
  by (simp add: Node_validate_errors text_constraint_Inl)

lemma Node_validate_surrogate_error:
  "\<exists>c\<in>set (Node_text n). is_surrogate c \<Longrightarrow>
   \<exists>es. Node_validate n = Inl es \<and> StringUnicode \<in> set es"
  by (simp add: Node_validate_errors text_constraint_surrogate)

lemma confidence_constraint_no_error:
  "case v of None \<Rightarrow> True | Some c \<Rightarrow> 0 \<le> c \<and> c \<le> 1 \<Longrightarrow>
   errors_of (confidence_constraint v) = []"
  by (cases v) (simp_all add: confidence_constraint_def)

lemma errors_of_id_not_empty: "set (errors_of (id_not_empty v)) \<subseteq> {IdMustBeNonEmpty}"
  by (simp add: id_not_empty_def Let_def)

lemma errors_of_text_constraint:
  "set (errors_of (text_constraint v)) \<subseteq> {StringUnicode, TextTooShort}"
  by (simp add: text_constraint_def)

lemma Node_validate_confidence_error:
  "Node_confidence n = Some c \<Longrightarrow> c < 0 \<or> 1 < c \<Longrightarrow>
   \<exists>es. Node_validate n = Inl es \<and> (ConfidenceNotGe \<in> set es \<or> ConfidenceNotLe \<in> set es)"
  by (auto simp: Node_validate_errors confidence_constraint_below confidence_constraint_above)


section \<open>Properties of the validation of a list of nodes\<close>

lemma validate_items_Inr:
  "validate_items f xs = Inr ys \<longleftrightarrow> list_all2 (\<lambda>x y. f x = Inr y) xs ys"
proof (induction xs arbitrary: ys)
  case Nil
  then show ?case by auto
next
  case (Cons x xs)
  show ?case
  proof (cases "f x")
    case (Inl es)
    then show ?thesis by (auto simp: list_all2_Cons1)
  next
    case (Inr y)
    show ?thesis
    proof (cases "validate_items f xs")
      case (Inl es)
      with Inr Cons.IH show ?thesis by (auto simp: list_all2_Cons1)
    next
      case r: (Inr zs)
      with Inr Cons.IH show ?thesis by (auto simp: list_all2_Cons1)
    qed
  qed
qed

lemma validate_items_Node:
  assumes "validate_items Node_validate ns = Inr ns'"
  shows "ns' = map (\<lambda>n. n\<lparr>Node_id := strip (Node_id n)\<rparr>) ns"
proof -
  from assms have l: "list_all2 (\<lambda>x y. Node_validate x = Inr y) ns ns'"
    by (simp add: validate_items_Inr)
  then have "length ns = length ns'" by (rule list_all2_lengthD)
  moreover have "\<forall>i<length ns. ns' ! i = (ns ! i)\<lparr>Node_id := strip (Node_id (ns ! i))\<rparr>"
    using l Node_validate_Inr_id by (auto simp: list_all2_conv_all_nth)
  ultimately show ?thesis by (simp add: list_eq_iff_nth_eq)
qed

lemma validate_items_Node_fixed:
  "\<forall>n\<in>set ns. Node_validate n = Inr n \<Longrightarrow> validate_items Node_validate ns = Inr ns"
  by (simp add: validate_items_Inr list_all2_same)

lemma ReasoningGraph_validate_dup:
  assumes "validate_items Node_validate (nodes g) = Inr ns"
    and "\<not> distinct (map (\<lambda>n. strip (Node_id n)) (nodes g))"
  shows "ReasoningGraph_validate g = Inl [DuplicateNodeIds]"
proof -
  from assms(1) have ns: "ns = map (\<lambda>n. n\<lparr>Node_id := strip (Node_id n)\<rparr>) (nodes g)"
    by (rule validate_items_Node)
  then have "map Node_id ns = map (\<lambda>n. strip (Node_id n)) (nodes g)" by simp
  with assms(2) have "\<not> distinct (map Node_id (nodes \<lparr>nodes = ns, edges = edges g\<rparr>))"
    by simp
  then have "validate_graph \<lparr>nodes = ns, edges = edges g\<rparr> = Inl DuplicateNodeIds"
    by (rule validate_graph_dup)
  with assms(1) show ?thesis by (simp add: ReasoningGraph_validate_def)
qed


section \<open>Properties of the export\<close>

lemma comprehension_map:
  "(\<And>x. x \<in> set xs \<Longrightarrow> f (g x) = Some (h x)) \<Longrightarrow>
   comprehension f (map g xs) = Some (map h xs)"
  by (induction xs) simp_all

lemma cyto_node_dump:
  "cyto_node (Node_model_dump n) =
     Some (JObject [(str_of ''data'',
        JObject [(str_of ''id'', JString (Node_id n)),
                 (str_of ''label'', JString (Node_text n)),
                 (str_of ''type'', JString (NodeType_value (Node_type n))),
                 (str_of ''source'', dump_optional JString (Node_source n)),
                 (str_of ''confidence'', dump_optional JNumber (Node_confidence n))])])"
  by (simp add: cyto_node_def Node_model_dump_def str_of_def)

lemma cyto_edge_dump:
  "cyto_edge (Edge_model_dump e) =
     Some (JObject [(str_of ''data'',
        JObject [(str_of ''id'',
                    JString (EdgeType_value (Edge_type e) @ str_of '':'' @ Edge_source e @
                             str_of ''->'' @ Edge_target e)),
                 (str_of ''source'', JString (Edge_source e)),
                 (str_of ''target'', JString (Edge_target e)),
                 (str_of ''type'', JString (EdgeType_value (Edge_type e)))])])"
  by (simp add: cyto_edge_def Edge_model_dump_def str_of_def)

lemma export_eq:
  "export out =
     Some (JObject
       [(str_of ''text'', JString (Output_text out)),
        (str_of ''elements'', JObject
          [(str_of ''nodes'', JArray (map (\<lambda>n.
              JObject [(str_of ''data'',
                JObject [(str_of ''id'', JString (Node_id n)),
                         (str_of ''label'', JString (Node_text n)),
                         (str_of ''type'', JString (NodeType_value (Node_type n))),
                         (str_of ''source'', dump_optional JString (Node_source n)),
                         (str_of ''confidence'',
                            dump_optional JNumber (Node_confidence n))])])
              (nodes (graph out)))),
           (str_of ''edges'', JArray (map (\<lambda>e.
              JObject [(str_of ''data'',
                JObject [(str_of ''id'',
                            JString (EdgeType_value (Edge_type e) @ str_of '':'' @
                                     Edge_source e @ str_of ''->'' @ Edge_target e)),
                         (str_of ''source'', JString (Edge_source e)),
                         (str_of ''target'', JString (Edge_target e)),
                         (str_of ''type'', JString (EdgeType_value (Edge_type e)))])])
              (edges (graph out))))])])"
proof -
  have t: "subscript (model_dump out) (str_of ''text'') = Some (JString (Output_text out))"
    by (simp add: model_dump_def str_of_def)
  have g: "subscript (model_dump out) (str_of ''graph'') =
      Some (ReasoningGraph_model_dump (graph out))"
    by (simp add: model_dump_def str_of_def)
  have ns: "subscript (ReasoningGraph_model_dump (graph out)) (str_of ''nodes'') =
      Some (JArray (map Node_model_dump (nodes (graph out))))"
    by (simp add: ReasoningGraph_model_dump_def str_of_def)
  have es: "subscript (ReasoningGraph_model_dump (graph out)) (str_of ''edges'') =
      Some (JArray (map Edge_model_dump (edges (graph out))))"
    by (simp add: ReasoningGraph_model_dump_def str_of_def)
  note cn = comprehension_map [of "nodes (graph out)" cyto_node Node_model_dump,
      OF cyto_node_dump]
  note ce = comprehension_map [of "edges (graph out)" cyto_edge Edge_model_dump,
      OF cyto_edge_dump]
  show ?thesis
    unfolding export_def cyto_def
    by (simp only: t g ns es cn ce iter.simps bind.bind_lunit)
qed


section \<open>C1: duplicate node ids\<close>

text \<open>
  C1. A graph in which two nodes at different positions have the same id is rejected by
  \<open>validate_graph\<close> with the duplicate-id error, whatever its edges are; a graph whose
  node ids are pairwise distinct is never rejected with that error. The ids compared
  are the ones stored in the nodes, which are the trimmed ones.
\<close>

theorem validate_graph_duplicate_id:
  "(i < length (nodes g) \<and> j < length (nodes g) \<and> i \<noteq> j \<and>
      Node_id (nodes g ! i) = Node_id (nodes g ! j)
      \<longrightarrow> validate_graph g = Inl DuplicateNodeIds) \<and>
   (distinct (map Node_id (nodes g)) \<longrightarrow> validate_graph g \<noteq> Inl DuplicateNodeIds)"
proof (intro conjI impI)
  assume a: "i < length (nodes g) \<and> j < length (nodes g) \<and> i \<noteq> j \<and>
      Node_id (nodes g ! i) = Node_id (nodes g ! j)"
  then have "\<not> distinct (map Node_id (nodes g))"
    using two_equal_not_distinct[of i "map Node_id (nodes g)" j] by simp
  then show "validate_graph g = Inl DuplicateNodeIds" by (rule validate_graph_dup)
next
  assume d: "distinct (map Node_id (nodes g))"
  show "validate_graph g \<noteq> Inl DuplicateNodeIds"
  proof
    assume "validate_graph g = Inl DuplicateNodeIds"
    with validate_graph_distinct[OF d]
    have "check_edges (set (map Node_id (nodes g))) (edges g) = Some DuplicateNodeIds"
      by (simp split: option.splits)
    from check_edges_Some[OF this] show False by auto
  qed
qed

theorem validate_graph_duplicate_id_witness:
  "validate_graph
     \<lparr>nodes = [\<lparr>Node_id = str_of ''c1'', Node_type = CLAIM, Node_text = str_of ''a'',
                 Node_source = None, Node_confidence = None\<rparr>,
               \<lparr>Node_id = str_of ''e1'', Node_type = EVIDENCE, Node_text = str_of ''b'',
                 Node_source = None, Node_confidence = None\<rparr>,
               \<lparr>Node_id = str_of ''c1'', Node_type = ASSUMPTION, Node_text = str_of ''c'',
                 Node_source = None, Node_confidence = Some (1/2)\<rparr>],
      edges = []\<rparr> = Inl DuplicateNodeIds \<and>
   validate_graph
     \<lparr>nodes = [\<lparr>Node_id = str_of ''c1'', Node_type = CLAIM, Node_text = str_of ''a'',
                 Node_source = None, Node_confidence = None\<rparr>,
               \<lparr>Node_id = str_of ''e1'', Node_type = EVIDENCE, Node_text = str_of ''b'',
                 Node_source = None, Node_confidence = None\<rparr>],
      edges = []\<rparr> \<noteq> Inl DuplicateNodeIds"
  using validate_graph_duplicate_id [of 0
     "\<lparr>nodes = [\<lparr>Node_id = str_of ''c1'', Node_type = CLAIM, Node_text = str_of ''a'',
                 Node_source = None, Node_confidence = None\<rparr>,
               \<lparr>Node_id = str_of ''e1'', Node_type = EVIDENCE, Node_text = str_of ''b'',
                 Node_source = None, Node_confidence = None\<rparr>,
               \<lparr>Node_id = str_of ''c1'', Node_type = ASSUMPTION, Node_text = str_of ''c'',
                 Node_source = None, Node_confidence = Some (1/2)\<rparr>],
      edges = []\<rparr>" 2]
    validate_graph_duplicate_id [of 0
     "\<lparr>nodes = [\<lparr>Node_id = str_of ''c1'', Node_type = CLAIM, Node_text = str_of ''a'',
                 Node_source = None, Node_confidence = None\<rparr>,
               \<lparr>Node_id = str_of ''e1'', Node_type = EVIDENCE, Node_text = str_of ''b'',
                 Node_source = None, Node_confidence = None\<rparr>],
      edges = []\<rparr>" 0]
  by (simp add: str_of_def)


section \<open>C2: dangling edge references\<close>

text \<open>
  The duplicate check comes first in \<open>validate_graph\<close>. A graph with a repeated node id
  and an edge whose source is not a node id is therefore rejected with the duplicate-id
  error, not with a dangling-reference error.
\<close>

theorem validate_graph_dangling_counterexample:
  "Edge_source \<lparr>Edge_source = str_of ''x9'', Edge_target = str_of ''c1'', Edge_type = SUPPORTS\<rparr>
     \<notin> set (map Node_id
         [\<lparr>Node_id = str_of ''c1'', Node_type = CLAIM, Node_text = str_of ''a'',
            Node_source = None, Node_confidence = None\<rparr>,
          \<lparr>Node_id = str_of ''c1'', Node_type = CLAIM, Node_text = str_of ''b'',
            Node_source = None, Node_confidence = None\<rparr>]) \<and>
   validate_graph
     \<lparr>nodes = [\<lparr>Node_id = str_of ''c1'', Node_type = CLAIM, Node_text = str_of ''a'',
                 Node_source = None, Node_confidence = None\<rparr>,
               \<lparr>Node_id = str_of ''c1'', Node_type = CLAIM, Node_text = str_of ''b'',
                 Node_source = None, Node_confidence = None\<rparr>],
      edges = [\<lparr>Edge_source = str_of ''x9'', Edge_target = str_of ''c1'',
                 Edge_type = SUPPORTS\<rparr>]\<rparr>
   = Inl DuplicateNodeIds"
  by (simp add: validate_graph_def str_of_def)

text \<open>
  C2, as the code has it. In a graph whose node ids are pairwise distinct, an edge whose
  source or target is not a node id makes \<open>validate_graph\<close> fail with a
  dangling-reference error that names an id absent from the node ids. The id named is
  that of the first such edge in edge order: its source when the source is missing,
  otherwise its target. Whether or not the node ids are distinct, a graph in which every
  edge's source and target are node ids is never rejected with a dangling-reference
  error.
\<close>

theorem validate_graph_dangling:
  "(distinct (map Node_id (nodes g)) \<and> e \<in> set (edges g) \<and>
      (Edge_source e \<notin> set (map Node_id (nodes g)) \<or>
       Edge_target e \<notin> set (map Node_id (nodes g)))
    \<longrightarrow> (\<exists>m. m \<notin> set (map Node_id (nodes g)) \<and>
           (validate_graph g = Inl (EdgeSourceNotFound m) \<or>
            validate_graph g = Inl (EdgeTargetNotFound m)))) \<and>
   (distinct (map Node_id (nodes g)) \<and> edges g = pre @ e # post \<and>
      (\<forall>x\<in>set pre. Edge_source x \<in> set (map Node_id (nodes g)) \<and>
                     Edge_target x \<in> set (map Node_id (nodes g))) \<and>
      (Edge_source e \<notin> set (map Node_id (nodes g)) \<or>
       Edge_target e \<notin> set (map Node_id (nodes g)))
    \<longrightarrow> validate_graph g =
          Inl (if Edge_source e \<notin> set (map Node_id (nodes g))
               then EdgeSourceNotFound (Edge_source e)
               else EdgeTargetNotFound (Edge_target e))) \<and>
   ((\<forall>x\<in>set (edges g). Edge_source x \<in> set (map Node_id (nodes g)) \<and>
                          Edge_target x \<in> set (map Node_id (nodes g)))
    \<longrightarrow> validate_graph g \<noteq> Inl (EdgeSourceNotFound m) \<and>
        validate_graph g \<noteq> Inl (EdgeTargetNotFound m))"
proof (intro conjI impI)
  let ?S = "set (map Node_id (nodes g))"
  assume a: "distinct (map Node_id (nodes g)) \<and> e \<in> set (edges g) \<and>
      (Edge_source e \<notin> ?S \<or> Edge_target e \<notin> ?S)"
  then have "check_edges ?S (edges g) \<noteq> None"
    using check_edges_None_iff[of ?S "edges g"] by blast
  then obtain err where err: "check_edges ?S (edges g) = Some err" by blast
  from a have vg: "validate_graph g = Inl err"
    by (simp add: validate_graph_distinct err del: set_map)
  from check_edges_Some[OF err] obtain x :: Edge where
    "(err = EdgeSourceNotFound (Edge_source x) \<and> Edge_source x \<notin> ?S) \<or>
     (err = EdgeTargetNotFound (Edge_target x) \<and> Edge_target x \<notin> ?S)" by blast
  with vg show "\<exists>m. m \<notin> ?S \<and>
           (validate_graph g = Inl (EdgeSourceNotFound m) \<or>
            validate_graph g = Inl (EdgeTargetNotFound m))" by blast
next
  let ?S = "set (map Node_id (nodes g))"
  assume a: "distinct (map Node_id (nodes g)) \<and> edges g = pre @ e # post \<and>
      (\<forall>x\<in>set pre. Edge_source x \<in> ?S \<and> Edge_target x \<in> ?S) \<and>
      (Edge_source e \<notin> ?S \<or> Edge_target e \<notin> ?S)"
  then have "check_edges ?S (edges g) =
     Some (if Edge_source e \<notin> ?S then EdgeSourceNotFound (Edge_source e)
           else EdgeTargetNotFound (Edge_target e))"
    using check_edges_first[of pre ?S e post] by simp
  with a show "validate_graph g =
          Inl (if Edge_source e \<notin> ?S then EdgeSourceNotFound (Edge_source e)
               else EdgeTargetNotFound (Edge_target e))"
    by (simp add: validate_graph_distinct del: set_map)
next
  let ?S = "set (map Node_id (nodes g))"
  assume a: "\<forall>x\<in>set (edges g). Edge_source x \<in> ?S \<and> Edge_target x \<in> ?S"
  then have none: "check_edges ?S (edges g) = None"
    using check_edges_None_iff[of ?S "edges g"] by blast
  then show "validate_graph g \<noteq> Inl (EdgeSourceNotFound m)"
    by (simp add: validate_graph_def Let_def del: set_map)
next
  let ?S = "set (map Node_id (nodes g))"
  assume a: "\<forall>x\<in>set (edges g). Edge_source x \<in> ?S \<and> Edge_target x \<in> ?S"
  then have none: "check_edges ?S (edges g) = None"
    using check_edges_None_iff[of ?S "edges g"] by blast
  then show "validate_graph g \<noteq> Inl (EdgeTargetNotFound m)"
    by (simp add: validate_graph_def Let_def del: set_map)
qed

theorem validate_graph_dangling_witness:
  "validate_graph
     \<lparr>nodes = [\<lparr>Node_id = str_of ''c1'', Node_type = CLAIM, Node_text = str_of ''a'',
                 Node_source = None, Node_confidence = None\<rparr>,
               \<lparr>Node_id = str_of ''e1'', Node_type = EVIDENCE, Node_text = str_of ''b'',
                 Node_source = None, Node_confidence = None\<rparr>],
      edges = [\<lparr>Edge_source = str_of ''e1'', Edge_target = str_of ''c1'',
                 Edge_type = SUPPORTS\<rparr>,
               \<lparr>Edge_source = str_of ''e1'', Edge_target = str_of ''x9'',
                 Edge_type = IMPLIES\<rparr>,
               \<lparr>Edge_source = str_of ''y7'', Edge_target = str_of ''c1'',
                 Edge_type = SUPPORTS\<rparr>]\<rparr>
     = Inl (EdgeTargetNotFound (str_of ''x9'')) \<and>
   validate_graph
     \<lparr>nodes = [\<lparr>Node_id = str_of ''c1'', Node_type = CLAIM, Node_text = str_of ''a'',
                 Node_source = None, Node_confidence = None\<rparr>,
               \<lparr>Node_id = str_of ''e1'', Node_type = EVIDENCE, Node_text = str_of ''b'',
                 Node_source = None, Node_confidence = None\<rparr>],
      edges = [\<lparr>Edge_source = str_of ''e1'', Edge_target = str_of ''c1'',
                 Edge_type = SUPPORTS\<rparr>]\<rparr>
     \<noteq> Inl (EdgeSourceNotFound (str_of ''x9'')) \<and>
   validate_graph
     \<lparr>nodes = [\<lparr>Node_id = str_of ''c1'', Node_type = CLAIM, Node_text = str_of ''a'',
                 Node_source = None, Node_confidence = None\<rparr>,
               \<lparr>Node_id = str_of ''e1'', Node_type = EVIDENCE, Node_text = str_of ''b'',
                 Node_source = None, Node_confidence = None\<rparr>],
      edges = [\<lparr>Edge_source = str_of ''e1'', Edge_target = str_of ''c1'',
                 Edge_type = SUPPORTS\<rparr>]\<rparr>
     \<noteq> Inl (EdgeTargetNotFound (str_of ''x9''))"
  using validate_graph_dangling [of
     "\<lparr>nodes = [\<lparr>Node_id = str_of ''c1'', Node_type = CLAIM, Node_text = str_of ''a'',
                 Node_source = None, Node_confidence = None\<rparr>,
               \<lparr>Node_id = str_of ''e1'', Node_type = EVIDENCE, Node_text = str_of ''b'',
                 Node_source = None, Node_confidence = None\<rparr>],
      edges = [\<lparr>Edge_source = str_of ''e1'', Edge_target = str_of ''c1'',
                 Edge_type = SUPPORTS\<rparr>,
               \<lparr>Edge_source = str_of ''e1'', Edge_target = str_of ''x9'',
                 Edge_type = IMPLIES\<rparr>,
               \<lparr>Edge_source = str_of ''y7'', Edge_target = str_of ''c1'',
                 Edge_type = SUPPORTS\<rparr>]\<rparr>"
     "\<lparr>Edge_source = str_of ''e1'', Edge_target = str_of ''x9'', Edge_type = IMPLIES\<rparr>"
     "[\<lparr>Edge_source = str_of ''e1'', Edge_target = str_of ''c1'', Edge_type = SUPPORTS\<rparr>]"
     "[\<lparr>Edge_source = str_of ''y7'', Edge_target = str_of ''c1'', Edge_type = SUPPORTS\<rparr>]"
     "str_of ''x9''"]
    validate_graph_dangling [of
     "\<lparr>nodes = [\<lparr>Node_id = str_of ''c1'', Node_type = CLAIM, Node_text = str_of ''a'',
                 Node_source = None, Node_confidence = None\<rparr>,
               \<lparr>Node_id = str_of ''e1'', Node_type = EVIDENCE, Node_text = str_of ''b'',
                 Node_source = None, Node_confidence = None\<rparr>],
      edges = [\<lparr>Edge_source = str_of ''e1'', Edge_target = str_of ''c1'',
                 Edge_type = SUPPORTS\<rparr>]\<rparr>"
     "\<lparr>Edge_source = str_of ''e1'', Edge_target = str_of ''c1'', Edge_type = SUPPORTS\<rparr>"
     "[]" "[]" "str_of ''x9''"]
  by (simp add: str_of_def)


section \<open>C3: the text of an Output\<close>

text \<open>
  The field \<open>text\<close> of \<open>Output\<close> carries no constraint: an \<open>Output\<close> with the empty
  text and a valid graph is constructed.
\<close>

theorem Output_validate_empty_text_counterexample:
  "Output_validate
     \<lparr>Output_text = str_of '''',
      graph = \<lparr>nodes = [\<lparr>Node_id = str_of ''c1'', Node_type = CLAIM,
                         Node_text = str_of ''off-by-one bug'',
                         Node_source = None, Node_confidence = None\<rparr>],
               edges = []\<rparr>\<rparr>
   = Inr
     \<lparr>Output_text = str_of '''',
      graph = \<lparr>nodes = [\<lparr>Node_id = str_of ''c1'', Node_type = CLAIM,
                         Node_text = str_of ''off-by-one bug'',
                         Node_source = None, Node_confidence = None\<rparr>],
               edges = []\<rparr>\<rparr>"
  by (simp add: Output_validate_def ReasoningGraph_validate_def Node_validate_def
      id_not_empty_def text_constraint_def is_surrogate_def confidence_constraint_def
      validate_graph_def
      strip_def lstrip_def rstrip_def isspace_def str_of_def)

text \<open>
  C3, as the code has it. The construction of an \<open>Output\<close> succeeds exactly when the
  construction of its graph succeeds, for every text \<open>t\<close>, the empty string included:
  the text is kept as given, and when the graph is rejected the errors are those of the
  graph.
\<close>

theorem Output_validate_any_text:
  "(ReasoningGraph_validate (graph out) = Inr g
      \<longrightarrow> Output_validate (out\<lparr>Output_text := t\<rparr>) = Inr \<lparr>Output_text = t, graph = g\<rparr>) \<and>
   (ReasoningGraph_validate (graph out) = Inl es
      \<longrightarrow> Output_validate (out\<lparr>Output_text := t\<rparr>) = Inl es)"
proof (rule conjI; rule impI)
  assume "ReasoningGraph_validate (graph out) = Inr g"
  then have "ReasoningGraph_validate (graph (out\<lparr>Output_text := t\<rparr>)) = Inr g" by simp
  then show "Output_validate (out\<lparr>Output_text := t\<rparr>) = Inr \<lparr>Output_text = t, graph = g\<rparr>"
    by (simp add: Output_validate_def)
next
  assume "ReasoningGraph_validate (graph out) = Inl es"
  then have "ReasoningGraph_validate (graph (out\<lparr>Output_text := t\<rparr>)) = Inl es" by simp
  then show "Output_validate (out\<lparr>Output_text := t\<rparr>) = Inl es"
    by (simp add: Output_validate_def)
qed

theorem Output_validate_any_text_witness:
  "Output_validate
     \<lparr>Output_text = str_of '''',
      graph = \<lparr>nodes = [\<lparr>Node_id = str_of ''c1'', Node_type = CLAIM,
                         Node_text = str_of ''off-by-one bug'',
                         Node_source = None, Node_confidence = None\<rparr>],
               edges = []\<rparr>\<rparr>
   = Inr
     \<lparr>Output_text = str_of '''',
      graph = \<lparr>nodes = [\<lparr>Node_id = str_of ''c1'', Node_type = CLAIM,
                         Node_text = str_of ''off-by-one bug'',
                         Node_source = None, Node_confidence = None\<rparr>],
               edges = []\<rparr>\<rparr> \<and>
   Output_validate
     \<lparr>Output_text = str_of ''summary'',
      graph = \<lparr>nodes = [\<lparr>Node_id = str_of ''c1'', Node_type = CLAIM,
                         Node_text = str_of '''',
                         Node_source = None, Node_confidence = None\<rparr>],
               edges = []\<rparr>\<rparr>
   = Inl [TextTooShort]"
proof -
  let ?g = "\<lparr>nodes = [\<lparr>Node_id = str_of ''c1'', Node_type = CLAIM,
                         Node_text = str_of ''off-by-one bug'',
                         Node_source = None, Node_confidence = None\<rparr>],
               edges = []\<rparr>"
  let ?b = "\<lparr>nodes = [\<lparr>Node_id = str_of ''c1'', Node_type = CLAIM,
                         Node_text = str_of '''',
                         Node_source = None, Node_confidence = None\<rparr>],
               edges = []\<rparr>"
  have g: "ReasoningGraph_validate ?g = Inr ?g"
    by (simp add: ReasoningGraph_validate_def Node_validate_defs validate_graph_def strip_defs)
  have b: "ReasoningGraph_validate ?b = Inl [TextTooShort]"
    by (simp add: ReasoningGraph_validate_def Node_validate_defs validate_graph_def strip_defs)
  from g b
    Output_validate_any_text [of "\<lparr>Output_text = str_of ''summary'', graph = ?g\<rparr>" ?g
       "str_of ''''" "[]"]
    Output_validate_any_text [of "\<lparr>Output_text = str_of '''', graph = ?b\<rparr>" ?b
       "str_of ''summary''" "[TextTooShort]"]
  show ?thesis by simp
qed


section \<open>C4: empty id and empty text\<close>

text \<open>
  The text of a node is a string with a length constraint, and such a string has to be
  valid Unicode: a node whose id is \<open>c1\<close>, whose text is the single surrogate code point
  \<open>U+D800\<close> (the Python string \<open>"\ud800"\<close>, of length 1) and whose confidence is
  absent is rejected with \<open>string_unicode\<close>, although its id is not empty after
  trimming and its text is not empty.
\<close>

theorem Node_validate_surrogate_text_counterexample:
  "strip (str_of ''c1'') \<noteq> [] \<and> length [0xD800 :: nat] = 1 \<and>
   Node_validate
     \<lparr>Node_id = str_of ''c1'', Node_type = CLAIM, Node_text = [0xD800],
      Node_source = None, Node_confidence = None\<rparr>
   = Inl [StringUnicode]"
  by (simp add: Node_validate_defs strip_defs)

text \<open>
  C4, as the code has it. The construction of a node fails, with the empty-id error
  among its errors, when the id is empty or made of whitespace only; it fails, with the
  too-short error among its errors, when the text is the empty string; it fails, with
  \<open>string_unicode\<close> among its errors, when the text holds a surrogate code point. When
  the id has a character that is not whitespace, the text is not empty and holds no
  surrogate code point, and the confidence is absent or within [0, 1], the construction
  succeeds, and the node built is the input with its id trimmed.
\<close>

theorem Node_validate_nonempty:
  "((\<forall>c\<in>set (Node_id n). isspace c)
      \<longrightarrow> (\<exists>es. Node_validate n = Inl es \<and> IdMustBeNonEmpty \<in> set es)) \<and>
   (Node_text n = []
      \<longrightarrow> (\<exists>es. Node_validate n = Inl es \<and> TextTooShort \<in> set es)) \<and>
   ((\<exists>c\<in>set (Node_text n). is_surrogate c)
      \<longrightarrow> (\<exists>es. Node_validate n = Inl es \<and> StringUnicode \<in> set es)) \<and>
   ((\<exists>c\<in>set (Node_id n). \<not> isspace c) \<and> Node_text n \<noteq> [] \<and>
    (\<forall>c\<in>set (Node_text n). \<not> is_surrogate c) \<and>
    (case Node_confidence n of None \<Rightarrow> True | Some c \<Rightarrow> 0 \<le> c \<and> c \<le> 1)
      \<longrightarrow> Node_validate n = Inr (n\<lparr>Node_id := strip (Node_id n)\<rparr>))"
proof (intro conjI impI)
  assume "\<forall>c\<in>set (Node_id n). isspace c"
  then have "strip (Node_id n) = []" by (simp add: strip_Nil_iff)
  then show "\<exists>es. Node_validate n = Inl es \<and> IdMustBeNonEmpty \<in> set es"
    by (rule Node_validate_id_error)
next
  assume "Node_text n = []"
  then show "\<exists>es. Node_validate n = Inl es \<and> TextTooShort \<in> set es"
    by (rule Node_validate_text_error)
next
  assume "\<exists>c\<in>set (Node_text n). is_surrogate c"
  then show "\<exists>es. Node_validate n = Inl es \<and> StringUnicode \<in> set es"
    by (rule Node_validate_surrogate_error)
next
  assume a: "(\<exists>c\<in>set (Node_id n). \<not> isspace c) \<and> Node_text n \<noteq> [] \<and>
    (\<forall>c\<in>set (Node_text n). \<not> is_surrogate c) \<and>
    (case Node_confidence n of None \<Rightarrow> True | Some c \<Rightarrow> 0 \<le> c \<and> c \<le> 1)"
  then have "strip (Node_id n) \<noteq> []" by (simp add: strip_Nil_iff)
  with a show "Node_validate n = Inr (n\<lparr>Node_id := strip (Node_id n)\<rparr>)"
    by (simp add: Node_validate_ok)
qed

theorem Node_validate_nonempty_witness:
  "(\<exists>es. Node_validate
           \<lparr>Node_id = str_of '''', Node_type = CLAIM, Node_text = str_of ''a'',
            Node_source = None, Node_confidence = None\<rparr> = Inl es \<and>
         IdMustBeNonEmpty \<in> set es) \<and>
   (\<exists>es. Node_validate
           \<lparr>Node_id = str_of ''   '', Node_type = CLAIM, Node_text = str_of ''a'',
            Node_source = None, Node_confidence = None\<rparr> = Inl es \<and>
         IdMustBeNonEmpty \<in> set es) \<and>
   (\<exists>es. Node_validate
           \<lparr>Node_id = str_of ''c1'', Node_type = CLAIM, Node_text = str_of '''',
            Node_source = None, Node_confidence = None\<rparr> = Inl es \<and>
         TextTooShort \<in> set es) \<and>
   (\<exists>es. Node_validate
           \<lparr>Node_id = str_of ''c1'', Node_type = CLAIM, Node_text = [0x61, 0xD800],
            Node_source = None, Node_confidence = None\<rparr> = Inl es \<and>
         StringUnicode \<in> set es) \<and>
   Node_validate
     \<lparr>Node_id = str_of ''c1'', Node_type = CLAIM, Node_text = str_of ''a'',
      Node_source = Some (str_of ''log''), Node_confidence = Some (1/2)\<rparr>
   = Inr \<lparr>Node_id = str_of ''c1'', Node_type = CLAIM, Node_text = str_of ''a'',
          Node_source = Some (str_of ''log''), Node_confidence = Some (1/2)\<rparr>"
  using
    Node_validate_nonempty [of
      "\<lparr>Node_id = str_of '''', Node_type = CLAIM, Node_text = str_of ''a'',
        Node_source = None, Node_confidence = None\<rparr>"]
    Node_validate_nonempty [of
      "\<lparr>Node_id = str_of ''   '', Node_type = CLAIM, Node_text = str_of ''a'',
        Node_source = None, Node_confidence = None\<rparr>"]
    Node_validate_nonempty [of
      "\<lparr>Node_id = str_of ''c1'', Node_type = CLAIM, Node_text = str_of '''',
        Node_source = None, Node_confidence = None\<rparr>"]
    Node_validate_nonempty [of
      "\<lparr>Node_id = str_of ''c1'', Node_type = CLAIM, Node_text = [0x61, 0xD800],
        Node_source = None, Node_confidence = None\<rparr>"]
    Node_validate_nonempty [of
      "\<lparr>Node_id = str_of ''c1'', Node_type = CLAIM, Node_text = str_of ''a'',
        Node_source = Some (str_of ''log''), Node_confidence = Some (1/2)\<rparr>"]
  by (simp add: strip_defs is_surrogate_def)


section \<open>C5: bounds of the confidence\<close>

text \<open>
  C5. The construction of a node whose confidence is less than 0 or greater than 1
  fails with a bound error among its errors. When the confidence is absent, is 0, is 1,
  or is any value of the closed interval [0, 1], no bound error is ever reported, and
  the construction succeeds as soon as the id and the text are acceptable: the id has a
  character that is not whitespace, the text is not empty and holds no surrogate code
  point.
\<close>

theorem Node_validate_confidence:
  "(Node_confidence n = Some c \<and> (c < 0 \<or> 1 < c)
      \<longrightarrow> (\<exists>es. Node_validate n = Inl es \<and>
                (ConfidenceNotGe \<in> set es \<or> ConfidenceNotLe \<in> set es))) \<and>
   (Node_confidence n = None \<or> Node_confidence n = Some 0 \<or> Node_confidence n = Some 1 \<or>
    (Node_confidence n = Some c \<and> 0 \<le> c \<and> c \<le> 1)
      \<longrightarrow> (\<forall>es. Node_validate n = Inl es
                \<longrightarrow> ConfidenceNotGe \<notin> set es \<and> ConfidenceNotLe \<notin> set es) \<and>
          ((\<exists>ch\<in>set (Node_id n). \<not> isspace ch) \<and> Node_text n \<noteq> [] \<and>
           (\<forall>ch\<in>set (Node_text n). \<not> is_surrogate ch)
             \<longrightarrow> Node_validate n = Inr (n\<lparr>Node_id := strip (Node_id n)\<rparr>)))"
proof (rule conjI; rule impI)
  assume "Node_confidence n = Some c \<and> (c < 0 \<or> 1 < c)"
  then show "\<exists>es. Node_validate n = Inl es \<and>
                (ConfidenceNotGe \<in> set es \<or> ConfidenceNotLe \<in> set es)"
    using Node_validate_confidence_error[of n c] by blast
next
  assume a: "Node_confidence n = None \<or> Node_confidence n = Some 0 \<or>
    Node_confidence n = Some 1 \<or> (Node_confidence n = Some c \<and> 0 \<le> c \<and> c \<le> 1)"
  then have ok: "case Node_confidence n of None \<Rightarrow> True | Some c \<Rightarrow> 0 \<le> c \<and> c \<le> 1"
    by auto
  have none: "\<forall>es. Node_validate n = Inl es
                \<longrightarrow> ConfidenceNotGe \<notin> set es \<and> ConfidenceNotLe \<notin> set es"
  proof (intro allI impI)
    fix es
    assume "Node_validate n = Inl es"
    then have "set es = set (errors_of (id_not_empty (Node_id n))) \<union>
        set (errors_of (text_constraint (Node_text n))) \<union>
        set (errors_of (confidence_constraint (Node_confidence n)))"
      by (auto simp: Node_validate_errors)
    with confidence_constraint_no_error[OF ok] errors_of_id_not_empty[of "Node_id n"]
      errors_of_text_constraint[of "Node_text n"]
    show "ConfidenceNotGe \<notin> set es \<and> ConfidenceNotLe \<notin> set es" by auto
  qed
  have succ: "(\<exists>ch\<in>set (Node_id n). \<not> isspace ch) \<and> Node_text n \<noteq> [] \<and>
           (\<forall>ch\<in>set (Node_text n). \<not> is_surrogate ch)
             \<longrightarrow> Node_validate n = Inr (n\<lparr>Node_id := strip (Node_id n)\<rparr>)"
  proof
    assume b: "(\<exists>ch\<in>set (Node_id n). \<not> isspace ch) \<and> Node_text n \<noteq> [] \<and>
           (\<forall>ch\<in>set (Node_text n). \<not> is_surrogate ch)"
    then have s: "strip (Node_id n) \<noteq> []" by (simp add: strip_Nil_iff)
    with b ok show "Node_validate n = Inr (n\<lparr>Node_id := strip (Node_id n)\<rparr>)"
      by (simp add: Node_validate_ok)
  qed
  from none succ
  show "(\<forall>es. Node_validate n = Inl es
                \<longrightarrow> ConfidenceNotGe \<notin> set es \<and> ConfidenceNotLe \<notin> set es) \<and>
          ((\<exists>ch\<in>set (Node_id n). \<not> isspace ch) \<and> Node_text n \<noteq> [] \<and>
           (\<forall>ch\<in>set (Node_text n). \<not> is_surrogate ch)
             \<longrightarrow> Node_validate n = Inr (n\<lparr>Node_id := strip (Node_id n)\<rparr>))"
    by (rule conjI)
qed

theorem Node_validate_confidence_witness:
  "(\<exists>es. Node_validate
           \<lparr>Node_id = str_of ''c1'', Node_type = CLAIM, Node_text = str_of ''a'',
            Node_source = None, Node_confidence = Some (3/2)\<rparr> = Inl es \<and>
         (ConfidenceNotGe \<in> set es \<or> ConfidenceNotLe \<in> set es)) \<and>
   (\<exists>es. Node_validate
           \<lparr>Node_id = str_of ''c1'', Node_type = CLAIM, Node_text = str_of ''a'',
            Node_source = None, Node_confidence = Some (- 1/10)\<rparr> = Inl es \<and>
         (ConfidenceNotGe \<in> set es \<or> ConfidenceNotLe \<in> set es)) \<and>
   Node_validate
     \<lparr>Node_id = str_of ''c1'', Node_type = CLAIM, Node_text = str_of ''a'',
      Node_source = None, Node_confidence = Some 0\<rparr>
   = Inr \<lparr>Node_id = str_of ''c1'', Node_type = CLAIM, Node_text = str_of ''a'',
          Node_source = None, Node_confidence = Some 0\<rparr> \<and>
   Node_validate
     \<lparr>Node_id = str_of ''c1'', Node_type = CLAIM, Node_text = str_of ''a'',
      Node_source = None, Node_confidence = Some 1\<rparr>
   = Inr \<lparr>Node_id = str_of ''c1'', Node_type = CLAIM, Node_text = str_of ''a'',
          Node_source = None, Node_confidence = Some 1\<rparr> \<and>
   Node_validate
     \<lparr>Node_id = str_of ''c1'', Node_type = CLAIM, Node_text = str_of ''a'',
      Node_source = None, Node_confidence = None\<rparr>
   = Inr \<lparr>Node_id = str_of ''c1'', Node_type = CLAIM, Node_text = str_of ''a'',
          Node_source = None, Node_confidence = None\<rparr> \<and>
   ConfidenceNotGe \<notin> set [IdMustBeNonEmpty, TextTooShort] \<and>
   ConfidenceNotLe \<notin> set [IdMustBeNonEmpty, TextTooShort]"
proof -
  let ?bad = "\<lparr>Node_id = str_of '' '', Node_type = CLAIM, Node_text = str_of '''',
      Node_source = None, Node_confidence = Some 1\<rparr>"
  have bad: "Node_validate ?bad = Inl [IdMustBeNonEmpty, TextTooShort]"
    by (simp add: Node_validate_defs strip_defs)
  from Node_validate_confidence [of ?bad 1] bad
  have "ConfidenceNotGe \<notin> set [IdMustBeNonEmpty, TextTooShort] \<and>
        ConfidenceNotLe \<notin> set [IdMustBeNonEmpty, TextTooShort]"
    by simp
  with
    Node_validate_confidence [of
      "\<lparr>Node_id = str_of ''c1'', Node_type = CLAIM, Node_text = str_of ''a'',
        Node_source = None, Node_confidence = Some (3/2)\<rparr>" "3/2"]
    Node_validate_confidence [of
      "\<lparr>Node_id = str_of ''c1'', Node_type = CLAIM, Node_text = str_of ''a'',
        Node_source = None, Node_confidence = Some (- 1/10)\<rparr>" "- 1/10"]
    Node_validate_confidence [of
      "\<lparr>Node_id = str_of ''c1'', Node_type = CLAIM, Node_text = str_of ''a'',
        Node_source = None, Node_confidence = Some 0\<rparr>" 0]
    Node_validate_confidence [of
      "\<lparr>Node_id = str_of ''c1'', Node_type = CLAIM, Node_text = str_of ''a'',
        Node_source = None, Node_confidence = Some 1\<rparr>" 1]
    Node_validate_confidence [of
      "\<lparr>Node_id = str_of ''c1'', Node_type = CLAIM, Node_text = str_of ''a'',
        Node_source = None, Node_confidence = None\<rparr>" 0]
  show ?thesis by (simp add: strip_defs is_surrogate_def)
qed


section \<open>C6: no semantic rule on edge and node kinds\<close>

text \<open>
  C6. \<open>validate_graph\<close> accepts every graph whose node ids are pairwise distinct and
  whose edges all run between node ids, and returns it: the kinds of the edges and of
  their end nodes play no part. The statement does not mention the kinds at all; its
  witness is a \<open>supports\<close> edge from a Claim to a Claim, which the commented-out rules
  would have rejected.
\<close>

theorem validate_graph_no_semantic_rules:
  "distinct (map Node_id (nodes g)) \<Longrightarrow>
   \<forall>e\<in>set (edges g). Edge_source e \<in> set (map Node_id (nodes g)) \<and>
                      Edge_target e \<in> set (map Node_id (nodes g)) \<Longrightarrow>
   validate_graph g = Inr g"
  using check_edges_None_iff[of "set (map Node_id (nodes g))" "edges g"]
  by (simp add: validate_graph_distinct del: set_map)

theorem validate_graph_no_semantic_rules_witness:
  "\<not> semantic_constraints
     \<lparr>nodes = [\<lparr>Node_id = str_of ''c1'', Node_type = CLAIM, Node_text = str_of ''a'',
                 Node_source = None, Node_confidence = None\<rparr>,
               \<lparr>Node_id = str_of ''c2'', Node_type = CLAIM, Node_text = str_of ''b'',
                 Node_source = None, Node_confidence = None\<rparr>],
      edges = [\<lparr>Edge_source = str_of ''c1'', Edge_target = str_of ''c2'',
                 Edge_type = SUPPORTS\<rparr>]\<rparr> \<and>
   validate_graph
     \<lparr>nodes = [\<lparr>Node_id = str_of ''c1'', Node_type = CLAIM, Node_text = str_of ''a'',
                 Node_source = None, Node_confidence = None\<rparr>,
               \<lparr>Node_id = str_of ''c2'', Node_type = CLAIM, Node_text = str_of ''b'',
                 Node_source = None, Node_confidence = None\<rparr>],
      edges = [\<lparr>Edge_source = str_of ''c1'', Edge_target = str_of ''c2'',
                 Edge_type = SUPPORTS\<rparr>]\<rparr>
   = Inr
     \<lparr>nodes = [\<lparr>Node_id = str_of ''c1'', Node_type = CLAIM, Node_text = str_of ''a'',
                 Node_source = None, Node_confidence = None\<rparr>,
               \<lparr>Node_id = str_of ''c2'', Node_type = CLAIM, Node_text = str_of ''b'',
                 Node_source = None, Node_confidence = None\<rparr>],
      edges = [\<lparr>Edge_source = str_of ''c1'', Edge_target = str_of ''c2'',
                 Edge_type = SUPPORTS\<rparr>]\<rparr>"
proof -
  let ?g = "\<lparr>nodes = [\<lparr>Node_id = str_of ''c1'', Node_type = CLAIM, Node_text = str_of ''a'',
                 Node_source = None, Node_confidence = None\<rparr>,
               \<lparr>Node_id = str_of ''c2'', Node_type = CLAIM, Node_text = str_of ''b'',
                 Node_source = None, Node_confidence = None\<rparr>],
      edges = [\<lparr>Edge_source = str_of ''c1'', Edge_target = str_of ''c2'',
                 Edge_type = SUPPORTS\<rparr>]\<rparr>"
  have d: "distinct (map Node_id (nodes ?g))" by (simp add: str_of_def)
  have r: "\<forall>e\<in>set (edges ?g). Edge_source e \<in> set (map Node_id (nodes ?g)) \<and>
                      Edge_target e \<in> set (map Node_id (nodes ?g))" by simp
  have s: "\<not> semantic_constraints ?g"
    by (simp add: semantic_constraints_def node_type_def str_of_def)
  from validate_graph_no_semantic_rules[OF d r] s show ?thesis by simp
qed


section \<open>C7: the id of an exported edge\<close>

text \<open>
  C7. The export of an \<open>Output\<close> succeeds and has one edge element for each edge; the
  element at position \<open>i\<close> has, as the first entry of its \<open>data\<close>, the id made of the
  value of the kind of the \<open>i\<close>-th edge, a colon, its source, the two characters
  \<open>->\<close>, and its target. The edge from \<open>e1\<close> to \<open>c1\<close> of kind \<open>supports\<close> is exported
  with the id \<open>supports:e1->c1\<close>.
\<close>

theorem export_edge_id:
  "i < length (edges (graph out)) \<Longrightarrow>
   \<exists>node_elems edge_elems rest.
     export out =
       Some (JObject [(str_of ''text'', JString (Output_text out)),
                      (str_of ''elements'',
                         JObject [(str_of ''nodes'', JArray node_elems),
                                  (str_of ''edges'', JArray edge_elems)])]) \<and>
     length edge_elems = length (edges (graph out)) \<and>
     edge_elems ! i =
       JObject [(str_of ''data'',
         JObject ((str_of ''id'',
                     JString (EdgeType_value (Edge_type (edges (graph out) ! i)) @
                              str_of '':'' @ Edge_source (edges (graph out) ! i) @
                              str_of ''->'' @ Edge_target (edges (graph out) ! i)))
                  # rest))]"
  by (simp add: export_eq)

theorem export_edge_id_witness:
  "\<exists>node_elems edge_elems rest.
     export
       \<lparr>Output_text = str_of ''off-by-one'',
        graph = \<lparr>nodes = [\<lparr>Node_id = str_of ''c1'', Node_type = CLAIM,
                           Node_text = str_of ''off-by-one bug'',
                           Node_source = None, Node_confidence = None\<rparr>,
                         \<lparr>Node_id = str_of ''e1'', Node_type = EVIDENCE,
                           Node_text = str_of ''IndexError on n=0'',
                           Node_source = None, Node_confidence = None\<rparr>],
                 edges = [\<lparr>Edge_source = str_of ''e1'', Edge_target = str_of ''c1'',
                           Edge_type = SUPPORTS\<rparr>]\<rparr>\<rparr> =
       Some (JObject [(str_of ''text'', JString (str_of ''off-by-one'')),
                      (str_of ''elements'',
                         JObject [(str_of ''nodes'', JArray node_elems),
                                  (str_of ''edges'', JArray edge_elems)])]) \<and>
     length edge_elems = 1 \<and>
     edge_elems ! 0 =
       JObject [(str_of ''data'',
         JObject ((str_of ''id'', JString (str_of ''supports:e1->c1'')) # rest))]"
  using export_edge_id [of 0
       "\<lparr>Output_text = str_of ''off-by-one'',
        graph = \<lparr>nodes = [\<lparr>Node_id = str_of ''c1'', Node_type = CLAIM,
                           Node_text = str_of ''off-by-one bug'',
                           Node_source = None, Node_confidence = None\<rparr>,
                         \<lparr>Node_id = str_of ''e1'', Node_type = EVIDENCE,
                           Node_text = str_of ''IndexError on n=0'',
                           Node_source = None, Node_confidence = None\<rparr>],
                 edges = [\<lparr>Edge_source = str_of ''e1'', Edge_target = str_of ''c1'',
                           Edge_type = SUPPORTS\<rparr>]\<rparr>\<rparr>"]
  by (simp add: str_of_def)


section \<open>C8: the exported elements\<close>

text \<open>
  C8. The export of an \<open>Output\<close> is the document with the text and, under \<open>elements\<close>,
  the list of the node elements and the list of the edge elements. The node elements
  are the images of the nodes, in the order of the nodes, one for each: the id, the
  text as \<open>label\<close>, the value of the kind as \<open>type\<close>, and \<open>source\<close> and \<open>confidence\<close>,
  which are present with the value null when the node has none. The edge elements are
  the images of the edges, in the order of the edges, one for each, repeated edges
  included. This holds for every \<open>Output\<close>, hence for every validated one.
\<close>

theorem export_elements:
  "export out =
     Some (JObject
       [(str_of ''text'', JString (Output_text out)),
        (str_of ''elements'', JObject
          [(str_of ''nodes'', JArray (map (\<lambda>n.
              JObject [(str_of ''data'',
                JObject [(str_of ''id'', JString (Node_id n)),
                         (str_of ''label'', JString (Node_text n)),
                         (str_of ''type'', JString (NodeType_value (Node_type n))),
                         (str_of ''source'',
                            case Node_source n of None \<Rightarrow> JNull | Some s \<Rightarrow> JString s),
                         (str_of ''confidence'',
                            case Node_confidence n of None \<Rightarrow> JNull
                            | Some c \<Rightarrow> JNumber c)])])
              (nodes (graph out)))),
           (str_of ''edges'', JArray (map (\<lambda>e.
              JObject [(str_of ''data'',
                JObject [(str_of ''id'',
                            JString (EdgeType_value (Edge_type e) @ str_of '':'' @
                                     Edge_source e @ str_of ''->'' @ Edge_target e)),
                         (str_of ''source'', JString (Edge_source e)),
                         (str_of ''target'', JString (Edge_target e)),
                         (str_of ''type'', JString (EdgeType_value (Edge_type e)))])])
              (edges (graph out))))])])"
  using export_eq [of out] by (simp only: dump_optional_def)

text \<open>
  The export of a two-node document with a repeated edge: both occurrences of the edge
  are exported, in place.
\<close>

theorem export_elements_example:
  "export
     \<lparr>Output_text = str_of ''off-by-one'',
      graph = \<lparr>nodes = [\<lparr>Node_id = str_of ''c1'', Node_type = CLAIM,
                         Node_text = str_of ''off-by-one bug'',
                         Node_source = None, Node_confidence = None\<rparr>,
                       \<lparr>Node_id = str_of ''e1'', Node_type = EVIDENCE,
                         Node_text = str_of ''IndexError on n=0'',
                         Node_source = Some (str_of ''test:stderr''),
                         Node_confidence = Some (9/10)\<rparr>],
               edges = [\<lparr>Edge_source = str_of ''e1'', Edge_target = str_of ''c1'',
                         Edge_type = SUPPORTS\<rparr>,
                       \<lparr>Edge_source = str_of ''e1'', Edge_target = str_of ''c1'',
                         Edge_type = SUPPORTS\<rparr>]\<rparr>\<rparr> =
   Some (JObject
     [(str_of ''text'', JString (str_of ''off-by-one'')),
      (str_of ''elements'', JObject
        [(str_of ''nodes'', JArray
           [JObject [(str_of ''data'',
              JObject [(str_of ''id'', JString (str_of ''c1'')),
                       (str_of ''label'', JString (str_of ''off-by-one bug'')),
                       (str_of ''type'', JString (str_of ''Claim'')),
                       (str_of ''source'', JNull),
                       (str_of ''confidence'', JNull)])],
            JObject [(str_of ''data'',
              JObject [(str_of ''id'', JString (str_of ''e1'')),
                       (str_of ''label'', JString (str_of ''IndexError on n=0'')),
                       (str_of ''type'', JString (str_of ''Evidence'')),
                       (str_of ''source'', JString (str_of ''test:stderr'')),
                       (str_of ''confidence'', JNumber (9/10))])]]),
         (str_of ''edges'', JArray
           [JObject [(str_of ''data'',
              JObject [(str_of ''id'', JString (str_of ''supports:e1->c1'')),
                       (str_of ''source'', JString (str_of ''e1'')),
                       (str_of ''target'', JString (str_of ''c1'')),
                       (str_of ''type'', JString (str_of ''supports''))])],
            JObject [(str_of ''data'',
              JObject [(str_of ''id'', JString (str_of ''supports:e1->c1'')),
                       (str_of ''source'', JString (str_of ''e1'')),
                       (str_of ''target'', JString (str_of ''c1'')),
                       (str_of ''type'', JString (str_of ''supports''))])]])])])"
  using export_elements [of
     "\<lparr>Output_text = str_of ''off-by-one'',
      graph = \<lparr>nodes = [\<lparr>Node_id = str_of ''c1'', Node_type = CLAIM,
                         Node_text = str_of ''off-by-one bug'',
                         Node_source = None, Node_confidence = None\<rparr>,
                       \<lparr>Node_id = str_of ''e1'', Node_type = EVIDENCE,
                         Node_text = str_of ''IndexError on n=0'',
                         Node_source = Some (str_of ''test:stderr''),
                         Node_confidence = Some (9/10)\<rparr>],
               edges = [\<lparr>Edge_source = str_of ''e1'', Edge_target = str_of ''c1'',
                         Edge_type = SUPPORTS\<rparr>,
                       \<lparr>Edge_source = str_of ''e1'', Edge_target = str_of ''c1'',
                         Edge_type = SUPPORTS\<rparr>]\<rparr>\<rparr>"]
  by (simp add: str_of_def)


section \<open>C9: validation returns the graph as given\<close>

text \<open>
  C9. When \<open>validate_graph\<close> succeeds, the graph it returns is the graph it was given:
  the same nodes and the same edges, in the same order. The same holds of the whole
  construction of a graph from nodes that are already constructed, that is, nodes that
  their own validation returns unchanged.
\<close>

theorem validate_graph_returns_self:
  "(validate_graph g = Inr g'
      \<longrightarrow> g' = g \<and> nodes g' = nodes g \<and> edges g' = edges g) \<and>
   ((\<forall>n\<in>set (nodes g). Node_validate n = Inr n) \<and> ReasoningGraph_validate g = Inr g'
      \<longrightarrow> g' = g \<and> nodes g' = nodes g \<and> edges g' = edges g)"
proof (rule conjI; rule impI)
  assume "validate_graph g = Inr g'"
  then have "g' = g" by (rule validate_graph_Inr)
  then show "g' = g \<and> nodes g' = nodes g \<and> edges g' = edges g" by simp
next
  assume a: "(\<forall>n\<in>set (nodes g). Node_validate n = Inr n) \<and>
    ReasoningGraph_validate g = Inr g'"
  then have "validate_items Node_validate (nodes g) = Inr (nodes g)"
    by (simp add: validate_items_Node_fixed)
  with a have "validate_graph \<lparr>nodes = nodes g, edges = edges g\<rparr> = Inr g'"
    by (simp add: ReasoningGraph_validate_def split: sum.splits)
  moreover have "\<lparr>nodes = nodes g, edges = edges g\<rparr> = g" by (cases g) simp
  ultimately have "validate_graph g = Inr g'" by simp
  then have "g' = g" by (rule validate_graph_Inr)
  then show "g' = g \<and> nodes g' = nodes g \<and> edges g' = edges g" by simp
qed

theorem validate_graph_returns_self_witness:
  "validate_graph
     \<lparr>nodes = [\<lparr>Node_id = str_of ''e1'', Node_type = EVIDENCE, Node_text = str_of ''b'',
                 Node_source = None, Node_confidence = None\<rparr>,
               \<lparr>Node_id = str_of ''c1'', Node_type = CLAIM, Node_text = str_of ''a'',
                 Node_source = None, Node_confidence = None\<rparr>],
      edges = [\<lparr>Edge_source = str_of ''e1'', Edge_target = str_of ''c1'',
                 Edge_type = SUPPORTS\<rparr>,
               \<lparr>Edge_source = str_of ''e1'', Edge_target = str_of ''c1'',
                 Edge_type = SUPPORTS\<rparr>]\<rparr>
   = Inr
     \<lparr>nodes = [\<lparr>Node_id = str_of ''e1'', Node_type = EVIDENCE, Node_text = str_of ''b'',
                 Node_source = None, Node_confidence = None\<rparr>,
               \<lparr>Node_id = str_of ''c1'', Node_type = CLAIM, Node_text = str_of ''a'',
                 Node_source = None, Node_confidence = None\<rparr>],
      edges = [\<lparr>Edge_source = str_of ''e1'', Edge_target = str_of ''c1'',
                 Edge_type = SUPPORTS\<rparr>,
               \<lparr>Edge_source = str_of ''e1'', Edge_target = str_of ''c1'',
                 Edge_type = SUPPORTS\<rparr>]\<rparr> \<and>
   ReasoningGraph_validate
     \<lparr>nodes = [\<lparr>Node_id = str_of ''e1'', Node_type = EVIDENCE, Node_text = str_of ''b'',
                 Node_source = None, Node_confidence = None\<rparr>,
               \<lparr>Node_id = str_of ''c1'', Node_type = CLAIM, Node_text = str_of ''a'',
                 Node_source = None, Node_confidence = None\<rparr>],
      edges = [\<lparr>Edge_source = str_of ''e1'', Edge_target = str_of ''c1'',
                 Edge_type = SUPPORTS\<rparr>,
               \<lparr>Edge_source = str_of ''e1'', Edge_target = str_of ''c1'',
                 Edge_type = SUPPORTS\<rparr>]\<rparr>
   = Inr
     \<lparr>nodes = [\<lparr>Node_id = str_of ''e1'', Node_type = EVIDENCE, Node_text = str_of ''b'',
                 Node_source = None, Node_confidence = None\<rparr>,
               \<lparr>Node_id = str_of ''c1'', Node_type = CLAIM, Node_text = str_of ''a'',
                 Node_source = None, Node_confidence = None\<rparr>],
      edges = [\<lparr>Edge_source = str_of ''e1'', Edge_target = str_of ''c1'',
                 Edge_type = SUPPORTS\<rparr>,
               \<lparr>Edge_source = str_of ''e1'', Edge_target = str_of ''c1'',
                 Edge_type = SUPPORTS\<rparr>]\<rparr>"
proof -
  let ?g = "\<lparr>nodes = [\<lparr>Node_id = str_of ''e1'', Node_type = EVIDENCE, Node_text = str_of ''b'',
                 Node_source = None, Node_confidence = None\<rparr>,
               \<lparr>Node_id = str_of ''c1'', Node_type = CLAIM, Node_text = str_of ''a'',
                 Node_source = None, Node_confidence = None\<rparr>],
      edges = [\<lparr>Edge_source = str_of ''e1'', Edge_target = str_of ''c1'',
                 Edge_type = SUPPORTS\<rparr>,
               \<lparr>Edge_source = str_of ''e1'', Edge_target = str_of ''c1'',
                 Edge_type = SUPPORTS\<rparr>]\<rparr>"
  have "\<exists>g'. validate_graph ?g = Inr g'"
    by (simp add: validate_graph_def str_of_def)
  then obtain g' where g': "validate_graph ?g = Inr g'" by blast
  have fixed: "\<forall>n\<in>set (nodes ?g). Node_validate n = Inr n"
    by (simp add: Node_validate_defs strip_defs)
  have "\<exists>g''. ReasoningGraph_validate ?g = Inr g''"
    by (simp add: ReasoningGraph_validate_def Node_validate_defs validate_graph_def strip_defs)
  then obtain g'' where g'': "ReasoningGraph_validate ?g = Inr g''" by blast
  from validate_graph_returns_self [of ?g g'] g' have 1: "validate_graph ?g = Inr ?g"
    by simp
  from validate_graph_returns_self [of ?g g''] fixed g''
  have 2: "ReasoningGraph_validate ?g = Inr ?g"
    by simp
  from 1 2 show ?thesis by simp
qed


section \<open>C10: the id of a node is stored trimmed\<close>

text \<open>
  C10. The id of a constructed node is the input id stripped: it is not empty, the input
  id is the stored id between a prefix and a suffix of whitespace, and the stored id
  neither starts nor ends with whitespace; validating the constructed node again returns
  it unchanged. Hence two nodes of the candidate data whose ids are equal once stripped
  make the construction of the graph fail with the duplicate-id error, provided each
  node is valid on its own: \<open>c1\<close> and \<open>c1\<close> between blanks are duplicates.
\<close>

theorem Node_validate_trims_id:
  "(Node_validate n = Inr n'
      \<longrightarrow> Node_id n' = strip (Node_id n) \<and> Node_id n' \<noteq> [] \<and>
          (\<exists>p s. Node_id n = p @ Node_id n' @ s \<and>
                 (\<forall>c\<in>set p. isspace c) \<and> (\<forall>c\<in>set s. isspace c)) \<and>
          \<not> isspace (hd (Node_id n')) \<and> \<not> isspace (last (Node_id n')) \<and>
          Node_validate n' = Inr n') \<and>
   (validate_items Node_validate (nodes g) = Inr ns \<and>
    i < length (nodes g) \<and> j < length (nodes g) \<and> i \<noteq> j \<and>
    strip (Node_id (nodes g ! i)) = strip (Node_id (nodes g ! j))
      \<longrightarrow> ReasoningGraph_validate g = Inl [DuplicateNodeIds])"
proof (intro conjI impI)
  assume v: "Node_validate n = Inr n'"
  then have "id_not_empty (Node_id n) = Inr (Node_id n')" by (simp add: Node_validate_Inr)
  then have ne: "strip (Node_id n) \<noteq> []" and eq: "Node_id n' = strip (Node_id n)"
    by (auto simp: id_not_empty_def Let_def split: if_splits)
  from eq show "Node_id n' = strip (Node_id n)" .
  from ne eq show "Node_id n' \<noteq> []" by simp
  from ne eq show "\<not> isspace (hd (Node_id n'))" by (simp add: hd_strip)
  from ne eq show "\<not> isspace (last (Node_id n'))" by (simp add: last_strip)
  from v have n': "n' = n\<lparr>Node_id := strip (Node_id n)\<rparr>" by (rule Node_validate_Inr_id)
  from v have c: "strip (Node_id n) \<noteq> [] \<and> Node_text n \<noteq> [] \<and>
      (\<forall>c\<in>set (Node_text n). \<not> is_surrogate c) \<and>
      (case Node_confidence n of None \<Rightarrow> True | Some c \<Rightarrow> 0 \<le> c \<and> c \<le> 1)"
    by (rule Node_validate_Inr_conditions)
  have "Node_validate (n\<lparr>Node_id := strip (Node_id n)\<rparr>) =
      Inr (n\<lparr>Node_id := strip (Node_id n)\<rparr>\<lparr>Node_id :=
             strip (Node_id (n\<lparr>Node_id := strip (Node_id n)\<rparr>))\<rparr>)"
    by (rule Node_validate_ok) (simp_all add: c strip_idem)
  then have "Node_validate (n\<lparr>Node_id := strip (Node_id n)\<rparr>) =
      Inr (n\<lparr>Node_id := strip (Node_id n)\<rparr>)"
    by (simp add: strip_idem)
  with n' have "Node_validate n' = Inr n'" by simp
  then show "Node_validate n' = Inr n'" .
  let ?p = "takeWhile isspace (Node_id n)"
  let ?s = "rev (takeWhile isspace (rev (lstrip (Node_id n))))"
  have "Node_id n = ?p @ Node_id n' @ ?s" unfolding eq by (rule strip_decomp)
  moreover have "\<forall>c\<in>set ?p. isspace c" by (auto dest: set_takeWhileD)
  moreover have "\<forall>c\<in>set ?s. isspace c" by (auto dest: set_takeWhileD)
  ultimately show "\<exists>p s. Node_id n = p @ Node_id n' @ s \<and>
                 (\<forall>c\<in>set p. isspace c) \<and> (\<forall>c\<in>set s. isspace c)" by blast
next
  assume a: "validate_items Node_validate (nodes g) = Inr ns \<and>
    i < length (nodes g) \<and> j < length (nodes g) \<and> i \<noteq> j \<and>
    strip (Node_id (nodes g ! i)) = strip (Node_id (nodes g ! j))"
  then have "\<not> distinct (map (\<lambda>n. strip (Node_id n)) (nodes g))"
    using two_equal_not_distinct[of i "map (\<lambda>n. strip (Node_id n)) (nodes g)" j] by simp
  with a show "ReasoningGraph_validate g = Inl [DuplicateNodeIds]"
    by (simp add: ReasoningGraph_validate_dup)
qed

theorem Node_validate_trims_id_witness:
  "Node_validate
     \<lparr>Node_id = str_of '' c1 '', Node_type = CLAIM, Node_text = str_of ''a'',
      Node_source = None, Node_confidence = None\<rparr>
   = Inr \<lparr>Node_id = str_of ''c1'', Node_type = CLAIM, Node_text = str_of ''a'',
          Node_source = None, Node_confidence = None\<rparr> \<and>
   ReasoningGraph_validate
     \<lparr>nodes = [\<lparr>Node_id = str_of ''c1'', Node_type = CLAIM, Node_text = str_of ''a'',
                 Node_source = None, Node_confidence = None\<rparr>,
               \<lparr>Node_id = str_of '' c1 '', Node_type = EVIDENCE, Node_text = str_of ''b'',
                 Node_source = None, Node_confidence = None\<rparr>],
      edges = []\<rparr>
   = Inl [DuplicateNodeIds]"
proof -
  let ?n = "\<lparr>Node_id = str_of '' c1 '', Node_type = CLAIM, Node_text = str_of ''a'',
      Node_source = None, Node_confidence = None\<rparr>"
  let ?g = "\<lparr>nodes = [\<lparr>Node_id = str_of ''c1'', Node_type = CLAIM, Node_text = str_of ''a'',
                 Node_source = None, Node_confidence = None\<rparr>,
               \<lparr>Node_id = str_of '' c1 '', Node_type = EVIDENCE, Node_text = str_of ''b'',
                 Node_source = None, Node_confidence = None\<rparr>],
      edges = []\<rparr>"
  have "\<exists>n'. Node_validate ?n = Inr n'"
    by (simp add: Node_validate_defs strip_defs)
  then obtain n' where n': "Node_validate ?n = Inr n'" by blast
  have "\<exists>ns. validate_items Node_validate (nodes ?g) = Inr ns"
    by (simp add: Node_validate_defs strip_defs)
  then obtain ns where ns: "validate_items Node_validate (nodes ?g) = Inr ns" by blast
  have s: "strip (Node_id (nodes ?g ! 0)) = strip (Node_id (nodes ?g ! 1))"
    by (simp add: strip_defs)
  from Node_validate_trims_id [of ?n n' ?g ns 0 1] n' ns s
  have "Node_id n' = strip (Node_id ?n)" and g: "ReasoningGraph_validate ?g = Inl [DuplicateNodeIds]"
    by simp_all
  with n' have "Node_validate ?n = Inr (?n\<lparr>Node_id := strip (Node_id ?n)\<rparr>)"
    using Node_validate_Inr_id [OF n'] by simp
  then have "Node_validate ?n = Inr \<lparr>Node_id = str_of ''c1'', Node_type = CLAIM,
      Node_text = str_of ''a'', Node_source = None, Node_confidence = None\<rparr>"
    by (simp add: strip_defs)
  with g show ?thesis by simp
qed

end
